theory Spec2Isabelle
  imports Main "HOL-Library.Sublist"
begin

section \<open>JavaScript values, the process environment and paths\<close>

text \<open>
  The build configuration \<^verbatim>\<open>webpack.config.js\<close> is a Node module. Loading it reads
  \<^verbatim>\<open>process.env\<close>, may touch the \<^verbatim>\<open>certs\<close> directory beside it, and builds the object
  \<^verbatim>\<open>config\<close>; the exported function then returns that object, or it and its smoke variant.

  A variable of \<^verbatim>\<open>process.env\<close> is a string or \<^verbatim>\<open>undefined\<close>: the environment is a partial map.
\<close>

type_synonym env = "string \<rightharpoonup> string"

text \<open>JavaScript truthiness of such a value: \<^verbatim>\<open>undefined\<close> and the empty string are falsy.\<close>

definition truthy :: "string option \<Rightarrow> bool" where
  "truthy v = (case v of None \<Rightarrow> False | Some s \<Rightarrow> s \<noteq> [])"

text \<open>\<^verbatim>\<open>v || d\<close> on a value of the environment and a string default.\<close>

definition js_or :: "string option \<Rightarrow> string \<Rightarrow> string" where
  "js_or v d = (case v of None \<Rightarrow> d | Some s \<Rightarrow> if s = [] then d else s)"

text \<open>
  \<^verbatim>\<open>String.prototype.replace\<close> with a string pattern replaces the first occurrence only.
  The replacement strings of this module contain no \<^verbatim>\<open>$\<close>, so the special replacement
  patterns play no part.
\<close>

fun js_replace :: "string \<Rightarrow> string \<Rightarrow> string \<Rightarrow> string" where
  "js_replace pat rep [] = (if pat = [] then rep else [])"
| "js_replace pat rep (c # cs) =
     (if prefix pat (c # cs) then rep @ drop (length pat) (c # cs)
      else c # js_replace pat rep cs)"

text \<open>
  A path is the list of its segments; \<^verbatim>\<open>path.join\<close> and \<^verbatim>\<open>path.resolve\<close> of the module's
  directory with plain segment names append the segments.
\<close>

type_synonym path = "string list"

definition path_join :: "path \<Rightarrow> string list \<Rightarrow> path" where
  "path_join base segs = base @ segs"

definition path_resolve :: "path \<Rightarrow> string list \<Rightarrow> path" where
  "path_resolve base segs = base @ segs"

text \<open>
  Object and array literals that the module only hands over to webpack, to a loader or to a
  library are kept as data. A call whose result the module does not inspect
  (\<^verbatim>\<open>ExtractTextPlugin.extract\<close>, \<^verbatim>\<open>JSON.stringify\<close>) stays symbolic as \<open>JCall\<close>.
\<close>

datatype js =
    JUndefined
  | JBool bool
  | JNum int
  | JStr string
  | JPath path
  | JRegExp string
  | JArr "js list"
  | JObj "(string \<times> js) list"
  | JCall string "js list"

definition js_of_env :: "string option \<Rightarrow> js" where
  "js_of_env v = (case v of None \<Rightarrow> JUndefined | Some s \<Rightarrow> JStr s)"

definition backslash :: char where
  "backslash = CHR 0x5C"


section \<open>The file system and certificate provisioning\<close>

datatype node = Dir | File string

type_synonym filesystem = "path \<rightharpoonup> node"

text \<open>
  The world outside the module: the file system, and the record of what the module did to
  it or asked of the certificate generator, in order.
\<close>

datatype effect = Generated | MkDir path | Wrote path string

record world =
  fs :: filesystem
  effects :: "effect list"

datatype fs_error = ENOENT | EEXIST | EISDIR | ENOTDIR

definition existsSync :: "world \<Rightarrow> path \<Rightarrow> bool" where
  "existsSync w p = (fs w p \<noteq> None)"

definition readFileSync :: "world \<Rightarrow> path \<Rightarrow> fs_error + string" where
  "readFileSync w p =
     (case fs w p of
        None \<Rightarrow> Inl ENOENT
      | Some Dir \<Rightarrow> Inl EISDIR
      | Some (File c) \<Rightarrow> Inr c)"

definition mkdirSync :: "world \<Rightarrow> path \<Rightarrow> fs_error + world" where
  "mkdirSync w p =
     (if fs w p \<noteq> None then Inl EEXIST
      else case fs w (butlast p) of
        None \<Rightarrow> Inl ENOENT
      | Some (File c) \<Rightarrow> Inl ENOTDIR
      | Some Dir \<Rightarrow> Inr (w\<lparr>fs := (fs w)(p \<mapsto> Dir), effects := effects w @ [MkDir p]\<rparr>))"

definition writeFileSync :: "world \<Rightarrow> path \<Rightarrow> string \<Rightarrow> fs_error + world" where
  "writeFileSync w p c =
     (case fs w p of
        Some Dir \<Rightarrow> Inl EISDIR
      | _ \<Rightarrow>
        (case fs w (butlast p) of
           None \<Rightarrow> Inl ENOENT
         | Some (File d) \<Rightarrow> Inl ENOTDIR
         | Some Dir \<Rightarrow>
             Inr (w\<lparr>fs := (fs w)(p \<mapsto> File c), effects := effects w @ [Wrote p c]\<rparr>)))"

text \<open>
  \<^verbatim>\<open>selfsigned.generate\<close> is a library call that draws a fresh key pair. What it returns for
  the attributes and options it is given is a parameter of the model.
\<close>

record pems =
  "private" :: string
  "public" :: string
  cert :: string

type_synonym generator = "js \<Rightarrow> js \<Rightarrow> pems"

datatype https_config = HttpsFalse | KeyCert string string

definition selfsigned_attrs :: js where
  "selfsigned_attrs = JArr [JObj [(''name'', JStr ''commonName''), (''value'', JStr ''localhost'')]]"

definition selfsigned_options :: js where
  "selfsigned_options =
     JObj [(''days'', JNum 365),
           (''algorithm'', JStr ''sha256''),
           (''extensions'',
              JArr [JObj [(''name'', JStr ''subjectAltName''),
                          (''altNames'',
                             JArr [JObj [(''type'', JNum 2), (''value'', JStr ''localhost'')]])]])]"

text \<open>
  \<^verbatim>\<open>createHTTPSConfig\<close>. A file system error is an exception that nothing catches: the
  result \<open>Inl\<close>, which ends the loading of the module; the world it leaves is not followed
  further. \<open>KeyCert k c\<close> is the object \<^verbatim>\<open>{ key: k, cert: c }\<close>.
\<close>

definition createHTTPSConfig ::
    "path \<Rightarrow> generator \<Rightarrow> env \<Rightarrow> world \<Rightarrow> fs_error + (https_config \<times> world)" where
  "createHTTPSConfig dirname generate env w =
     (if env ''NODE_ENV'' = Some ''production'' then Inr (HttpsFalse, w)
      else if existsSync w (path_join dirname [''certs'']) then
        (case readFileSync w (path_join dirname [''certs'', ''key.pem'']) of
           Inl e \<Rightarrow> Inl e
         | Inr k \<Rightarrow>
           (case readFileSync w (path_join dirname [''certs'', ''cert.pem'']) of
              Inl e \<Rightarrow> Inl e
            | Inr c \<Rightarrow> Inr (KeyCert k c, w)))
      else
        (let ps = generate selfsigned_attrs selfsigned_options;
             w0 = w\<lparr>effects := effects w @ [Generated]\<rparr>
         in case mkdirSync w0 (path_join dirname [''certs'']) of
              Inl e \<Rightarrow> Inl e
            | Inr w1 \<Rightarrow>
              (case writeFileSync w1 (path_join dirname [''certs'', ''cert.pem'']) (cert ps) of
                 Inl e \<Rightarrow> Inl e
               | Inr w2 \<Rightarrow>
                 (case writeFileSync w2 (path_join dirname [''certs'', ''key.pem'']) (private ps) of
                    Inl e \<Rightarrow> Inl e
                  | Inr w3 \<Rightarrow> Inr (KeyCert (private ps) (cert ps), w3)))))"


section \<open>The development server's HEAD route\<close>

text \<open>
  The part of Express that \<^verbatim>\<open>devServer.before\<close> uses. A response under construction holds
  its header fields and, once \<^verbatim>\<open>send\<close> ran, its body. \<^verbatim>\<open>res.append\<close> adds a value to a
  header field, keeping the values the field already has.
\<close>

record request =
  "method" :: string
  url :: string

record response =
  headers :: "string \<rightharpoonup> string list"
  body :: "string option"

definition res_append :: "response \<Rightarrow> string \<Rightarrow> string \<Rightarrow> response" where
  "res_append res field v =
     res\<lparr>headers := (headers res)(field \<mapsto>
        (case headers res field of None \<Rightarrow> [v] | Some prev \<Rightarrow> prev @ [v]))\<rparr>"

definition res_send :: "response \<Rightarrow> string \<Rightarrow> response" where
  "res_send res b = res\<lparr>body := Some b\<rparr>"

text \<open>
  A handler either ends the exchange with a response or calls \<^verbatim>\<open>next()\<close>. Its first
  argument is what \<^verbatim>\<open>(new Date()).toGMTString()\<close> evaluates to when it runs.
\<close>

datatype outcome = Sent response | Next

type_synonym handler = "string \<Rightarrow> request \<Rightarrow> response \<Rightarrow> outcome"

record app =
  routes :: "(string \<times> string \<times> handler) list"

text \<open>\<^verbatim>\<open>app.head(pattern, handler)\<close> adds a route for the method HEAD.\<close>

definition app_head :: "string \<Rightarrow> handler \<Rightarrow> app \<Rightarrow> app" where
  "app_head pattern h a = a\<lparr>routes := routes a @ [(''HEAD'', pattern, h)]\<rparr>"

text \<open>
  Express runs, in the order of their registration, the routes whose method is the
  request's and whose pattern matches its path (\<^verbatim>\<open>*\<close> matches every path), until one does
  not call \<^verbatim>\<open>next()\<close>. \<open>Next\<close> as the result of all routes: the request goes on to the
  middleware registered after them, its response object untouched.
\<close>

fun dispatch :: "(string \<times> string \<times> handler) list \<Rightarrow> string \<Rightarrow> request \<Rightarrow> response \<Rightarrow> outcome" where
  "dispatch [] now req res = Next"
| "dispatch ((m, pattern, h) # rs) now req res =
     (if m = method req \<and> (pattern = ''*'' \<or> pattern = url req)
      then (case h now req res of Sent r \<Rightarrow> Sent r | Next \<Rightarrow> dispatch rs now req res)
      else dispatch rs now req res)"

text \<open>The function given to \<^verbatim>\<open>app.head\<close>, and \<^verbatim>\<open>devServer.before\<close> itself.\<close>

definition head_handler :: handler where
  "head_handler now req res =
     (if method req = ''HEAD'' then Sent (res_send (res_append res ''Date'' now) [])
      else Next)"

definition before_fn :: "app \<Rightarrow> app" where
  "before_fn a = app_head ''*'' head_handler a"


section \<open>The template plugin\<close>

record template_options =
  "imports" :: "(string \<times> js) list"

text \<open>
  \<^verbatim>\<open>_.template(source, options)()\<close> is lodash's; it is a parameter of the model. It throws on
  a malformed template or on a name that is not bound: the result \<open>None\<close>.
\<close>

type_synonym template_fn = "string \<Rightarrow> template_options \<Rightarrow> string option"

text \<open>
  The object html-webpack-plugin passes to the handlers of its events: the page's markup and
  the fields the handler does not look at.
\<close>

record html_data =
  html :: string

text \<open>
  The handler the plugin registers. It is an \<^verbatim>\<open>async\<close> function: an exception inside it is
  a rejected promise, the result \<open>None\<close>.
\<close>

definition before_html_processing ::
    "template_fn \<Rightarrow> template_options \<Rightarrow> 'a html_data_scheme \<Rightarrow> 'a html_data_scheme option" where
  "before_html_processing tmpl opts data =
     (case tmpl (html data) opts of
        None \<Rightarrow> None
      | Some s \<Rightarrow> Some (data\<lparr>html := s\<rparr>))"

text \<open>
  The compiler and compilation objects, as far as \<^verbatim>\<open>plugin(name, fn)\<close> goes: the handlers in
  the order of their registration.
\<close>

record 'a compilation =
  compilation_handlers :: "(string \<times> ('a html_data_scheme \<Rightarrow> 'a html_data_scheme option)) list"

record 'a compiler =
  compiler_handlers :: "(string \<times> ('a compilation \<Rightarrow> 'a compilation)) list"

definition compilation_plugin ::
    "string \<Rightarrow> ('a html_data_scheme \<Rightarrow> 'a html_data_scheme option) \<Rightarrow> 'a compilation \<Rightarrow> 'a compilation" where
  "compilation_plugin name f c = c\<lparr>compilation_handlers := compilation_handlers c @ [(name, f)]\<rparr>"

definition compiler_plugin ::
    "string \<Rightarrow> ('a compilation \<Rightarrow> 'a compilation) \<Rightarrow> 'a compiler \<Rightarrow> 'a compiler" where
  "compiler_plugin name f c = c\<lparr>compiler_handlers := compiler_handlers c @ [(name, f)]\<rparr>"

text \<open>\<^verbatim>\<open>LodashTemplatePlugin.apply\<close>, for the plugin constructed with \<open>opts\<close>.\<close>

definition LodashTemplatePlugin_apply ::
    "template_fn \<Rightarrow> template_options \<Rightarrow> 'a compiler \<Rightarrow> 'a compiler" where
  "LodashTemplatePlugin_apply tmpl opts compiler =
     compiler_plugin ''compilation''
       (\<lambda>compilation.
          compilation_plugin ''html-webpack-plugin-before-html-processing''
            (before_html_processing tmpl opts) compilation)
       compiler"

text \<open>
  What webpack does with the handlers: a new compilation is passed to the handlers of
  \<^verbatim>\<open>compilation\<close>, and an event of a compilation threads its data through the handlers
  registered under the event's name, stopping at the first that fails.
\<close>

definition new_compilation :: "'a compiler \<Rightarrow> 'a compilation" where
  "new_compilation compiler =
     fold (\<lambda>(name, f) c. if name = ''compilation'' then f c else c)
       (compiler_handlers compiler) \<lparr>compilation_handlers = []\<rparr>"

fun waterfall ::
    "(string \<times> ('a \<Rightarrow> 'a option)) list \<Rightarrow> string \<Rightarrow> 'a \<Rightarrow> 'a option" where
  "waterfall [] name d = Some d"
| "waterfall ((n, f) # hs) name d =
     (if n = name then (case f d of None \<Rightarrow> None | Some d' \<Rightarrow> waterfall hs name d')
      else waterfall hs name d)"


section \<open>The configuration object\<close>

record "output" =
  path :: path
  filename :: string
  publicPath :: string

text \<open>
  The options object of an \<^verbatim>\<open>HTMLWebpackPlugin\<close>, with the fields this module gives;
  \<open>inject\<close> is \<open>None\<close> where the literal has no such field. The plugin's constructor keeps the
  fields it is given as its \<^verbatim>\<open>options\<close>.
\<close>

record html_options =
  filename :: string
  template :: path
  chunks :: "string list"
  inject :: "string option"

text \<open>The plugin instances, by class; \<^verbatim>\<open>instanceof\<close> is the test on the constructor.\<close>

datatype plugin =
    HTMLWebpackPlugin html_options
  | ExtractTextPlugin string js
  | LodashTemplatePlugin template_options
  | DefinePlugin js

record devServer =
  "open" :: bool
  https :: https_config
  host :: string
  useLocalIp :: bool
  port :: nat
  before :: "app \<Rightarrow> app"

record performance =
  assetFilter :: "string \<Rightarrow> bool"

record module_ =
  rules :: "js list"

record config =
  entry :: "(string \<times> path) list"
  "output" :: "output"
  mode :: string
  devtool :: string
  devServer :: devServer
  performance :: performance
  "module" :: module_
  plugins :: "plugin list"

text \<open>
  \<^verbatim>\<open>assetFilter\<close>: the regular expression \<^verbatim>\<open>/\.(map|png|jpg|gif|glb)$/\<close> matches
  exactly the names that end in a dot and one of the five extensions.
\<close>

definition assetFilter_fn :: "string \<Rightarrow> bool" where
  "assetFilter_fn assetFilename =
     (\<not> list_ex (\<lambda>ext. suffix (CHR ''.'' # ext) assetFilename)
          [''map'', ''png'', ''jpg'', ''gif'', ''glb''])"

text \<open>
  The object \<^verbatim>\<open>config\<close>, built when the module is loaded in the directory \<open>dirname\<close> under
  the environment \<open>env\<close>, where the call of \<^verbatim>\<open>createHTTPSConfig()\<close> returned \<open>h\<close>.
\<close>

definition config :: "path \<Rightarrow> env \<Rightarrow> https_config \<Rightarrow> config" where
  "config dirname env h =
     \<lparr>entry =
        [(''lobby'', path_join dirname [''src'', ''lobby.js'']),
         (''room'', path_join dirname [''src'', ''room.js'']),
         (''onboarding'', path_join dirname [''src'', ''onboarding.js''])],
      output =
        \<lparr>path = path_join dirname [''public''],
         output.filename = ''[name]-[chunkhash].js'',
         publicPath = js_or (env ''BASE_ASSETS_PATH'') []\<rparr>,
      mode = ''development'',
      devtool =
        (if env ''NODE_ENV'' = Some ''production'' then ''source-map'' else ''inline-source-map''),
      devServer =
        \<lparr>open = True,
         https = h,
         host = ''0.0.0.0'',
         useLocalIp = True,
         port = 8080,
         before = before_fn\<rparr>,
      performance = \<lparr>assetFilter = assetFilter_fn\<rparr>,
      module =
        \<lparr>rules =
           [JObj [(''test'', JRegExp (backslash # ''.html$'')),
                  (''loader'', JStr ''html-loader''),
                  (''options'',
                     JObj [(''attrs'',
                              JArr [JStr ''img:src'',
                                    JStr ''a-asset-item:src'',
                                    JStr ''a-progressive-asset:src'',
                                    JStr ''a-progressive-asset:high-src'',
                                    JStr ''a-progressive-asset:low-src'',
                                    JStr ''audio:src'']),
                           (''interpolate'', JStr ''require'')])],
            JObj [(''test'', JRegExp (backslash # ''.js$'')),
                  (''include'', JArr [JPath (path_resolve dirname [''src''])]),
                  (''exclude'', JArr [JPath (path_resolve dirname [''node_modules''])]),
                  (''loader'', JStr ''babel-loader''),
                  (''query'',
                     JObj [(''plugins'',
                              JArr [JStr ''transform-class-properties'',
                                    JStr ''transform-object-rest-spread''])])],
            JObj [(''test'', JRegExp (backslash # ''.scss$'')),
                  (''loader'',
                     JCall ''ExtractTextPlugin.extract''
                       [JObj [(''fallback'', JStr ''style-loader''),
                              (''use'',
                                 JArr [JObj [(''loader'', JStr ''css-loader''),
                                             (''options'',
                                                JObj [(''minimize'',
                                                   JBool (env ''NODE_ENV'' = Some ''production''))])],
                                       JStr ''sass-loader''])]])],
            JObj [(''test'', JRegExp (backslash # ''.css$'')),
                  (''use'',
                     JCall ''ExtractTextPlugin.extract''
                       [JObj [(''fallback'', JStr ''style-loader''),
                              (''use'',
                                 JObj [(''loader'', JStr ''css-loader''),
                                       (''options'',
                                          JObj [(''minimize'',
                                             JBool (env ''NODE_ENV'' = Some ''production''))])])]])],
            JObj [(''test'', JRegExp (backslash # ''.(png|jpg|gif|glb|ogg|woff2)$'')),
                  (''use'',
                     JObj [(''loader'', JStr ''file-loader''),
                           (''options'',
                              JObj [(''name'', JStr ''[path][name]-[hash].[ext]''),
                                    (''context'', JPath (path_join dirname [''src'']))])])]]\<rparr>,
      plugins =
        [HTMLWebpackPlugin
           \<lparr>html_options.filename = ''index.html'',
            template = path_join dirname [''src'', ''lobby.html''],
            chunks = [''lobby''],
            inject = None\<rparr>,
         HTMLWebpackPlugin
           \<lparr>html_options.filename = ''room.html'',
            template = path_join dirname [''src'', ''room.html''],
            chunks = [''room''],
            inject = Some ''head''\<rparr>,
         HTMLWebpackPlugin
           \<lparr>html_options.filename = ''onboarding.html'',
            template = path_join dirname [''src'', ''onboarding.html''],
            chunks = [''onboarding''],
            inject = None\<rparr>,
         ExtractTextPlugin ''[name]-[contenthash].css''
           (JObj [(''disable'', JBool (env ''NODE_ENV'' \<noteq> Some ''production''))]),
         LodashTemplatePlugin
           \<lparr>imports =
              [(''NODE_ENV'', js_of_env (env ''NODE_ENV'')),
               (''ORIGIN_TRIAL_EXPIRES'', js_of_env (env ''ORIGIN_TRIAL_EXPIRES'')),
               (''ORIGIN_TRIAL_TOKEN'', js_of_env (env ''ORIGIN_TRIAL_TOKEN''))]\<rparr>,
         DefinePlugin
           (JObj [(''process.env'',
                   JCall ''JSON.stringify''
                     [JObj [(''NODE_ENV'', js_of_env (env ''NODE_ENV'')),
                            (''JANUS_SERVER'', js_of_env (env ''JANUS_SERVER''))]])])]\<rparr>"

text \<open>
  Loading the module: \<^verbatim>\<open>createHTTPSConfig()\<close> runs inside the object literal, so an
  exception of it leaves the module without an export.
\<close>

definition load_module ::
    "path \<Rightarrow> generator \<Rightarrow> env \<Rightarrow> world \<Rightarrow> fs_error + (config \<times> world)" where
  "load_module dirname generate env w =
     (case createHTTPSConfig dirname generate env w of
        Inl e \<Rightarrow> Inl e
      | Inr (h, w') \<Rightarrow> Inr (config dirname env h, w'))"


section \<open>The exported function\<close>

text \<open>
  The callback of \<^verbatim>\<open>config.plugins.map\<close>, and the object \<^verbatim>\<open>smokeConfig\<close> for the
  value \<open>b\<close> of \<^verbatim>\<open>BASE_ASSETS_PATH\<close>. \<^verbatim>\<open>Object.assign({}, o, {f: v})\<close> is
  the copy of \<open>o\<close> with the field \<open>f\<close> replaced.
\<close>

definition smoke_plugin :: "plugin \<Rightarrow> plugin" where
  "smoke_plugin p =
     (case p of
        HTMLWebpackPlugin opts \<Rightarrow>
          HTMLWebpackPlugin (opts\<lparr>html_options.filename := ''smoke-'' @ html_options.filename opts\<rparr>)
      | _ \<Rightarrow> p)"

definition smokeConfig :: "string \<Rightarrow> config \<Rightarrow> config" where
  "smokeConfig b cfg =
     cfg\<lparr>output := (output cfg)\<lparr>publicPath := js_replace ''://'' ''://smoke-'' b\<rparr>,
         plugins := map smoke_plugin (plugins cfg)\<rparr>"

text \<open>
  The function returns one configuration object or an array of them. It reads the environment
  when it is called; \<open>cfg\<close> is the object built at load time. The statements below take the
  environment of the call to be the one the module was loaded under.
\<close>

datatype exported = Config config | ConfigArray "config list"

definition module_exports :: "env \<Rightarrow> config \<Rightarrow> exported" where
  "module_exports env cfg =
     (if truthy (env ''GENERATE_SMOKE_TESTS'') \<and> truthy (env ''BASE_ASSETS_PATH'')
      then (case env ''BASE_ASSETS_PATH'' of
              Some b \<Rightarrow> ConfigArray [cfg, smokeConfig b cfg]
            | None \<Rightarrow> Config cfg)
      else Config cfg)"


section \<open>Reading a configuration\<close>

text \<open>The options of the HTML plugins of a plugin list, in order.\<close>

fun html_plugins :: "plugin list \<Rightarrow> html_options list" where
  "html_plugins [] = []"
| "html_plugins (HTMLWebpackPlugin opts # ps) = opts # html_plugins ps"
| "html_plugins (p # ps) = html_plugins ps"

fun other_plugins :: "plugin list \<Rightarrow> plugin list" where
  "other_plugins [] = []"
| "other_plugins (HTMLWebpackPlugin opts # ps) = other_plugins ps"
| "other_plugins (p # ps) = p # other_plugins ps"

fun template_plugins :: "plugin list \<Rightarrow> template_options list" where
  "template_plugins [] = []"
| "template_plugins (LodashTemplatePlugin opts # ps) = opts # template_plugins ps"
| "template_plugins (p # ps) = template_plugins ps"

text \<open>
  The \<^verbatim>\<open>minimize\<close> options of the \<^verbatim>\<open>css-loader\<close> entries anywhere inside a rule.
\<close>

fun css_minimize :: "js \<Rightarrow> js list" where
  "css_minimize (JArr xs) = concat (map css_minimize xs)"
| "css_minimize (JCall f xs) = concat (map css_minimize xs)"
| "css_minimize (JObj kvs) =
     (if map_of kvs ''loader'' = Some (JStr ''css-loader'')
      then (case map_of kvs ''options'' of
              Some (JObj os) \<Rightarrow> (case map_of os ''minimize'' of Some v \<Rightarrow> [v] | None \<Rightarrow> [])
            | _ \<Rightarrow> [])
      else concat (map (\<lambda>kv. css_minimize (snd kv)) kvs))"
| "css_minimize _ = []"

text \<open>The rules of a list whose \<^verbatim>\<open>test\<close> is the regular expression \<open>re\<close>.\<close>

definition rules_for :: "string \<Rightarrow> js list \<Rightarrow> js list" where
  "rules_for re rs =
     filter (\<lambda>r. case r of JObj kvs \<Rightarrow> map_of kvs ''test'' = Some (JRegExp re) | _ \<Rightarrow> False) rs"

text \<open>Registering the plugins of a list with a compiler; only this module's own plugin is followed.\<close>

fun apply_plugins :: "template_fn \<Rightarrow> plugin list \<Rightarrow> 'a compiler \<Rightarrow> 'a compiler" where
  "apply_plugins tmpl [] c = c"
| "apply_plugins tmpl (LodashTemplatePlugin opts # ps) c =
     apply_plugins tmpl ps (LodashTemplatePlugin_apply tmpl opts c)"
| "apply_plugins tmpl (p # ps) c = apply_plugins tmpl ps c"

section \<open>The world after a certificate was generated, and sample data\<close>

text \<open>
  What the generating branch of \<^verbatim>\<open>createHTTPSConfig\<close> leaves behind when nothing fails:
  the directory, the two files, and the four effects in the order of the source.
\<close>

definition persisted :: "path \<Rightarrow> pems \<Rightarrow> world \<Rightarrow> world" where
  "persisted dirname ps w =
     w\<lparr>fs := (fs w)(path_join dirname [''certs''] \<mapsto> Dir,
                     path_join dirname [''certs'', ''cert.pem''] \<mapsto> File (cert ps),
                     path_join dirname [''certs'', ''key.pem''] \<mapsto> File (private ps)),
       effects := effects w @
         [Generated, MkDir (path_join dirname [''certs'']),
          Wrote (path_join dirname [''certs'', ''cert.pem'']) (cert ps),
          Wrote (path_join dirname [''certs'', ''key.pem'']) (private ps)]\<rparr>"

text \<open>Concrete directories, generators, environments and worlds, for evaluating the model.\<close>

definition sample_dirname :: path where
  "sample_dirname = [''app'']"

definition sample_generator :: generator where
  "sample_generator attrs opts = \<lparr>private = ''KEY'', public = ''PUB'', cert = ''CERT''\<rparr>"

definition other_generator :: generator where
  "other_generator attrs opts = \<lparr>private = ''KEY2'', public = ''PUB2'', cert = ''CERT2''\<rparr>"

definition env_development :: env where
  "env_development = Map.empty"

definition env_production :: env where
  "env_production = [''NODE_ENV'' \<mapsto> ''production'']"

definition world_fresh :: world where
  "world_fresh = \<lparr>fs = [[''app''] \<mapsto> Dir], effects = []\<rparr>"

definition world_empty_certs :: world where
  "world_empty_certs = \<lparr>fs = [[''app''] \<mapsto> Dir, [''app'', ''certs''] \<mapsto> Dir], effects = []\<rparr>"

definition world_cert_only :: world where
  "world_cert_only =
     \<lparr>fs = [[''app''] \<mapsto> Dir, [''app'', ''certs''] \<mapsto> Dir,
            [''app'', ''certs'', ''cert.pem''] \<mapsto> File ''STORED CERT''],
      effects = []\<rparr>"

definition world_cached :: world where
  "world_cached =
     \<lparr>fs = [[''app''] \<mapsto> Dir, [''app'', ''certs''] \<mapsto> Dir,
            [''app'', ''certs'', ''key.pem''] \<mapsto> File ''STORED KEY'',
            [''app'', ''certs'', ''cert.pem''] \<mapsto> File ''STORED CERT''],
      effects = []\<rparr>"

definition env_smoke :: env where
  "env_smoke = [''GENERATE_SMOKE_TESTS'' \<mapsto> ''true'',
                ''BASE_ASSETS_PATH'' \<mapsto> ''https://assets.example.com/'']"

definition env_smoke_blank :: env where
  "env_smoke_blank = [''GENERATE_SMOKE_TESTS'' \<mapsto> [],
                      ''BASE_ASSETS_PATH'' \<mapsto> ''https://assets.example.com/'']"

definition env_smoke_relative :: env where
  "env_smoke_relative = [''GENERATE_SMOKE_TESTS'' \<mapsto> ''true'',
                         ''BASE_ASSETS_PATH'' \<mapsto> ''/assets/'']"

definition head_request :: request where
  "head_request = \<lparr>method = ''HEAD'', url = ''/room.html''\<rparr>"

definition get_request :: request where
  "get_request = \<lparr>method = ''GET'', url = ''/room.html''\<rparr>"

definition fresh_response :: response where
  "fresh_response = \<lparr>headers = Map.empty, body = None\<rparr>"

definition sample_now :: string where
  "sample_now = ''Mon, 02 Nov 2026 08:25:00 GMT''"


section \<open>Unfolding the sample data\<close>

lemmas sample_defs = sample_dirname_def sample_generator_def other_generator_def
  env_development_def env_production_def world_fresh_def world_empty_certs_def
  world_cert_only_def world_cached_def
  env_smoke_def env_smoke_blank_def env_smoke_relative_def
  head_request_def get_request_def fresh_response_def sample_now_def


section \<open>Lemmas on string replacement\<close>

lemma js_replace_absent:
  "\<not> sublist pat s \<Longrightarrow> js_replace pat rep s = s"
proof (induction s)
  case Nil
  then show ?case by auto
next
  case (Cons c cs)
  have "\<not> prefix pat (c # cs)"
    using Cons.prems by (meson prefix_imp_sublist)
  moreover have "\<not> sublist pat cs"
    using Cons.prems by (meson sublist_Cons_right)
  ultimately show ?case using Cons.IH by simp
qed

lemma js_replace_first:
  assumes "pat \<noteq> []" and "\<not> sublist pat (pre @ butlast pat)"
  shows "js_replace pat rep (pre @ pat @ post) = pre @ rep @ post"
  using assms
proof (induction pre)
  case Nil
  then obtain p ps where "pat = p # ps" by (cases pat) auto
  then show ?case by simp
next
  case (Cons x pre)
  have np: "\<not> prefix pat (x # pre @ pat @ post)"
  proof
    assume a: "prefix pat (x # pre @ pat @ post)"
    have b: "prefix ((x # pre) @ butlast pat) (x # pre @ pat @ post)"
      by (metis append_Cons append_butlast_last_id Cons.prems(1) append.assoc prefixI prefix_order.eq_iff same_prefix_prefix)
    have "length pat \<le> length ((x # pre) @ butlast pat)"
      using Cons.prems(1) by (cases pat) auto
    with a b have "prefix pat ((x # pre) @ butlast pat)"
      by (metis prefix_length_prefix)
    then show False using Cons.prems(2) by (meson prefix_imp_sublist)
  qed
  have "\<not> sublist pat (pre @ butlast pat)"
    using Cons.prems(2) by (metis append_Cons sublist_Cons_right)
  with Cons.IH Cons.prems(1) have "js_replace pat rep (pre @ pat @ post) = pre @ rep @ post"
    by simp
  with np show ?case by simp
qed


section \<open>Certificate provisioning\<close>

lemma createHTTPSConfig_production:
  "env ''NODE_ENV'' = Some ''production'' \<Longrightarrow>
   createHTTPSConfig dirname generate env w = Inr (HttpsFalse, w)"
  by (simp add: createHTTPSConfig_def)

lemma createHTTPSConfig_cached:
  assumes "env ''NODE_ENV'' \<noteq> Some ''production''"
    and "existsSync w (path_join dirname [''certs''])"
    and "fs w (path_join dirname [''certs'', ''key.pem'']) = Some (File k)"
    and "fs w (path_join dirname [''certs'', ''cert.pem'']) = Some (File c)"
  shows "createHTTPSConfig dirname generate env w = Inr (KeyCert k c, w)"
  using assms by (simp add: createHTTPSConfig_def readFileSync_def)


lemma createHTTPSConfig_generate:
  assumes "env ''NODE_ENV'' \<noteq> Some ''production''"
    and "\<not> existsSync w (path_join dirname [''certs''])"
    and "fs w dirname = Some Dir"
  shows "createHTTPSConfig dirname generate env w =
           (case fs w (path_join dirname [''certs'', ''cert.pem'']) of Some Dir \<Rightarrow> Inl EISDIR
            | _ \<Rightarrow> (case fs w (path_join dirname [''certs'', ''key.pem'']) of Some Dir \<Rightarrow> Inl EISDIR
            | _ \<Rightarrow> Inr (KeyCert (private (generate selfsigned_attrs selfsigned_options))
                      (cert (generate selfsigned_attrs selfsigned_options)),
                 persisted dirname (generate selfsigned_attrs selfsigned_options) w)))"
  using assms
  by (auto simp add: createHTTPSConfig_def existsSync_def mkdirSync_def writeFileSync_def
      path_join_def persisted_def Let_def butlast_append split: option.splits node.splits)

lemma createHTTPSConfig_generated_world:
  assumes "env ''NODE_ENV'' \<noteq> Some ''production''"
    and "\<not> existsSync w (path_join dirname [''certs''])"
    and "createHTTPSConfig dirname generate env w = Inr (r, w')"
  shows "r = KeyCert (private (generate selfsigned_attrs selfsigned_options))
                     (cert (generate selfsigned_attrs selfsigned_options)) \<and>
         w' = persisted dirname (generate selfsigned_attrs selfsigned_options) w"
  using assms
  by (auto simp add: createHTTPSConfig_def existsSync_def mkdirSync_def writeFileSync_def
      path_join_def persisted_def Let_def butlast_append
      split: option.splits node.splits if_splits sum.splits)

lemma createHTTPSConfig_cached_result:
  assumes "env ''NODE_ENV'' \<noteq> Some ''production''"
    and "existsSync w (path_join dirname [''certs''])"
    and "createHTTPSConfig dirname generate env w = Inr (r, w')"
  shows "w' = w \<and> (\<exists>k c. r = KeyCert k c \<and>
           fs w (path_join dirname [''certs'', ''key.pem'']) = Some (File k) \<and>
           fs w (path_join dirname [''certs'', ''cert.pem'']) = Some (File c))"
  using assms
  by (auto simp add: createHTTPSConfig_def readFileSync_def
      split: option.splits node.splits if_splits sum.splits)

lemma persisted_reads:
  "existsSync (persisted dirname ps w) (path_join dirname [''certs'']) \<and>
   fs (persisted dirname ps w) (path_join dirname [''certs'', ''key.pem'']) = Some (File (private ps)) \<and>
   fs (persisted dirname ps w) (path_join dirname [''certs'', ''cert.pem'']) = Some (File (cert ps))"
  by (simp add: persisted_def existsSync_def path_join_def)

lemma createHTTPSConfig_again:
  assumes "createHTTPSConfig dirname generate env w = Inr (r, w')"
  shows "createHTTPSConfig dirname generate' env w' = Inr (r, w')"
proof (cases "env ''NODE_ENV'' = Some ''production''")
  case True
  with assms show ?thesis by (simp add: createHTTPSConfig_def)
next
  case dev: False
  show ?thesis
  proof (cases "existsSync w (path_join dirname [''certs''])")
    case True
    from createHTTPSConfig_cached_result [OF dev True assms]
    obtain k c where "w' = w" "r = KeyCert k c"
      "fs w (path_join dirname [''certs'', ''key.pem'']) = Some (File k)"
      "fs w (path_join dirname [''certs'', ''cert.pem'']) = Some (File c)"
      by blast
    with dev True show ?thesis by (simp add: createHTTPSConfig_cached)
  next
    case False
    from createHTTPSConfig_generated_world [OF dev False assms]
    show ?thesis
      using dev persisted_reads [of dirname "generate selfsigned_attrs selfsigned_options" w]
      by (simp add: createHTTPSConfig_cached)
  qed
qed

lemma createHTTPSConfig_false_iff:
  "(\<exists>w'. createHTTPSConfig dirname generate env w = Inr (HttpsFalse, w')) =
     (env ''NODE_ENV'' = Some ''production'')"
proof
  assume "\<exists>w'. createHTTPSConfig dirname generate env w = Inr (HttpsFalse, w')"
  then obtain w' where r: "createHTTPSConfig dirname generate env w = Inr (HttpsFalse, w')" ..
  show "env ''NODE_ENV'' = Some ''production''"
  proof (rule ccontr)
    assume dev: "env ''NODE_ENV'' \<noteq> Some ''production''"
    show False
    proof (cases "existsSync w (path_join dirname [''certs''])")
      case True
      from createHTTPSConfig_cached_result [OF dev True r] show False by auto
    next
      case False
      from createHTTPSConfig_generated_world [OF dev False r] show False by auto
    qed
  qed
next
  assume "env ''NODE_ENV'' = Some ''production''"
  then show "\<exists>w'. createHTTPSConfig dirname generate env w = Inr (HttpsFalse, w')"
    by (simp add: createHTTPSConfig_production)
qed

text \<open>
  Claim C2, as the code has it. Outside production, when \<^verbatim>\<open>certs\<close> exists and holds
  both \<^verbatim>\<open>key.pem\<close> and \<^verbatim>\<open>cert.pem\<close> as files, \<^verbatim>\<open>createHTTPSConfig\<close> returns the stored pair
  and leaves the world as it was: no file system change, no certificate generated, nothing
  written. And whenever an invocation returns, a second one in the world it left returns the
  same value and changes nothing, whatever the generator would have drawn.
\<close>

theorem certificate_reuse:
  "(env ''NODE_ENV'' \<noteq> Some ''production'' \<and>
    existsSync w (path_join dirname [''certs'']) \<and>
    fs w (path_join dirname [''certs'', ''key.pem'']) = Some (File k) \<and>
    fs w (path_join dirname [''certs'', ''cert.pem'']) = Some (File c)
      \<longrightarrow> createHTTPSConfig dirname generate env w = Inr (KeyCert k c, w)) \<and>
   (createHTTPSConfig dirname generate env w = Inr (r, w')
      \<longrightarrow> createHTTPSConfig dirname generate' env w' = Inr (r, w'))"
proof (intro conjI impI)
  assume "env ''NODE_ENV'' \<noteq> Some ''production'' \<and>
    existsSync w (path_join dirname [''certs'']) \<and>
    fs w (path_join dirname [''certs'', ''key.pem'']) = Some (File k) \<and>
    fs w (path_join dirname [''certs'', ''cert.pem'']) = Some (File c)"
  then show "createHTTPSConfig dirname generate env w = Inr (KeyCert k c, w)"
    by (simp add: createHTTPSConfig_cached)
next
  assume "createHTTPSConfig dirname generate env w = Inr (r, w')"
  then show "createHTTPSConfig dirname generate' env w' = Inr (r, w')"
    by (rule createHTTPSConfig_again)
qed

theorem certificate_reuse_witness:
  "createHTTPSConfig sample_dirname sample_generator env_development world_cached =
     Inr (KeyCert ''STORED KEY'' ''STORED CERT'', world_cached) \<and>
   createHTTPSConfig sample_dirname sample_generator env_development world_fresh =
     Inr (KeyCert ''KEY'' ''CERT'',
          persisted sample_dirname \<lparr>private = ''KEY'', public = ''PUB'', cert = ''CERT''\<rparr> world_fresh) \<and>
   createHTTPSConfig sample_dirname other_generator env_development
       (persisted sample_dirname \<lparr>private = ''KEY'', public = ''PUB'', cert = ''CERT''\<rparr> world_fresh) =
     Inr (KeyCert ''KEY'' ''CERT'',
          persisted sample_dirname \<lparr>private = ''KEY'', public = ''PUB'', cert = ''CERT''\<rparr> world_fresh)"
proof -
  have first: "createHTTPSConfig sample_dirname sample_generator env_development world_fresh =
     Inr (KeyCert ''KEY'' ''CERT'',
          persisted sample_dirname \<lparr>private = ''KEY'', public = ''PUB'', cert = ''CERT''\<rparr> world_fresh)"
    by (simp add: createHTTPSConfig_def sample_defs existsSync_def mkdirSync_def
        writeFileSync_def path_join_def persisted_def Let_def)
  have pre: "env_development ''NODE_ENV'' \<noteq> Some ''production'' \<and>
    existsSync world_cached (path_join sample_dirname [''certs'']) \<and>
    fs world_cached (path_join sample_dirname [''certs'', ''key.pem'']) = Some (File ''STORED KEY'') \<and>
    fs world_cached (path_join sample_dirname [''certs'', ''cert.pem'']) = Some (File ''STORED CERT'')"
    by (simp add: sample_defs existsSync_def path_join_def)
  from certificate_reuse [where env = env_development and w = world_cached
      and dirname = sample_dirname and k = "''STORED KEY''" and c = "''STORED CERT''"
      and generate = sample_generator] pre
  have cached: "createHTTPSConfig sample_dirname sample_generator env_development world_cached =
     Inr (KeyCert ''STORED KEY'' ''STORED CERT'', world_cached)"
    by simp
  from certificate_reuse [where env = env_development and w = world_fresh
      and dirname = sample_dirname and generate = sample_generator
      and generate' = other_generator] first
  have "createHTTPSConfig sample_dirname other_generator env_development
       (persisted sample_dirname \<lparr>private = ''KEY'', public = ''PUB'', cert = ''CERT''\<rparr> world_fresh) =
     Inr (KeyCert ''KEY'' ''CERT'',
          persisted sample_dirname \<lparr>private = ''KEY'', public = ''PUB'', cert = ''CERT''\<rparr> world_fresh)"
    by simp
  with first cached show ?thesis by simp
qed

text \<open>
  The claim does not hold of every state in which \<^verbatim>\<open>certs\<close> exists: with \<^verbatim>\<open>key.pem\<close>
  missing the read fails and the exception escapes, and in production the stored pair is not
  returned.
\<close>

theorem certificate_reuse_counterexample:
  "existsSync world_cert_only (path_join sample_dirname [''certs'']) \<and>
   createHTTPSConfig sample_dirname sample_generator env_development world_cert_only = Inl ENOENT \<and>
   existsSync world_cached (path_join sample_dirname [''certs'']) \<and>
   createHTTPSConfig sample_dirname sample_generator env_production world_cached =
     Inr (HttpsFalse, world_cached)"
  by (simp add: createHTTPSConfig_def sample_defs existsSync_def readFileSync_def path_join_def)

text \<open>
  Claim C3, as the code has it. \<^verbatim>\<open>createHTTPSConfig\<close> returns \<^verbatim>\<open>false\<close> exactly when
  \<^verbatim>\<open>NODE_ENV\<close> is \<^verbatim>\<open>production\<close>, and then touches nothing. Otherwise the test is the
  existence of the directory \<^verbatim>\<open>certs\<close>: without it, a pair is generated, the directory is
  made, \<^verbatim>\<open>cert.pem\<close> and \<^verbatim>\<open>key.pem\<close> are written and the generated pair is returned; with it,
  and with both files in it, the stored pair is returned.
\<close>

theorem certificate_provisioning:
  "((\<exists>w'. createHTTPSConfig dirname generate env w = Inr (HttpsFalse, w')) =
      (env ''NODE_ENV'' = Some ''production'')) \<and>
   (env ''NODE_ENV'' = Some ''production''
      \<longrightarrow> createHTTPSConfig dirname generate env w = Inr (HttpsFalse, w)) \<and>
   (env ''NODE_ENV'' \<noteq> Some ''production'' \<and>
    \<not> existsSync w (path_join dirname [''certs'']) \<and>
    fs w dirname = Some Dir \<and>
    fs w (path_join dirname [''certs'', ''key.pem'']) = None \<and>
    fs w (path_join dirname [''certs'', ''cert.pem'']) = None
      \<longrightarrow> createHTTPSConfig dirname generate env w =
            Inr (KeyCert (private (generate selfsigned_attrs selfsigned_options))
                         (cert (generate selfsigned_attrs selfsigned_options)),
                 persisted dirname (generate selfsigned_attrs selfsigned_options) w)) \<and>
   (env ''NODE_ENV'' \<noteq> Some ''production'' \<and>
    existsSync w (path_join dirname [''certs'']) \<and>
    fs w (path_join dirname [''certs'', ''key.pem'']) = Some (File k) \<and>
    fs w (path_join dirname [''certs'', ''cert.pem'']) = Some (File c)
      \<longrightarrow> createHTTPSConfig dirname generate env w = Inr (KeyCert k c, w))"
proof -
  have a: "(\<exists>w'. createHTTPSConfig dirname generate env w = Inr (HttpsFalse, w')) =
      (env ''NODE_ENV'' = Some ''production'')"
    by (rule createHTTPSConfig_false_iff)
  have g: "env ''NODE_ENV'' \<noteq> Some ''production'' \<and>
    \<not> existsSync w (path_join dirname [''certs'']) \<and>
    fs w dirname = Some Dir \<and>
    fs w (path_join dirname [''certs'', ''key.pem'']) = None \<and>
    fs w (path_join dirname [''certs'', ''cert.pem'']) = None
      \<longrightarrow> createHTTPSConfig dirname generate env w =
            Inr (KeyCert (private (generate selfsigned_attrs selfsigned_options))
                         (cert (generate selfsigned_attrs selfsigned_options)),
                 persisted dirname (generate selfsigned_attrs selfsigned_options) w)"
    by (simp add: createHTTPSConfig_generate)
  have p: "env ''NODE_ENV'' = Some ''production''
      \<longrightarrow> createHTTPSConfig dirname generate env w = Inr (HttpsFalse, w)"
    by (simp add: createHTTPSConfig_production)
  have c: "env ''NODE_ENV'' \<noteq> Some ''production'' \<and>
    existsSync w (path_join dirname [''certs'']) \<and>
    fs w (path_join dirname [''certs'', ''key.pem'']) = Some (File k) \<and>
    fs w (path_join dirname [''certs'', ''cert.pem'']) = Some (File c)
      \<longrightarrow> createHTTPSConfig dirname generate env w = Inr (KeyCert k c, w)"
    by (simp add: createHTTPSConfig_cached)
  from a p g c show ?thesis by (intro conjI)
qed

text \<open>
  The test is on the directory, not on the files: in an empty \<^verbatim>\<open>certs\<close> the files are
  absent, yet nothing is generated and no pair is returned.
\<close>

theorem certificate_provisioning_counterexample:
  "env_development ''NODE_ENV'' \<noteq> Some ''production'' \<and>
   fs world_empty_certs (path_join sample_dirname [''certs'', ''key.pem'']) = None \<and>
   fs world_empty_certs (path_join sample_dirname [''certs'', ''cert.pem'']) = None \<and>
   createHTTPSConfig sample_dirname sample_generator env_development world_empty_certs = Inl ENOENT"
  by (simp add: createHTTPSConfig_def sample_defs existsSync_def readFileSync_def path_join_def)

theorem certificate_provisioning_witness:
  "createHTTPSConfig sample_dirname sample_generator env_production world_fresh =
     Inr (HttpsFalse, world_fresh) \<and>
   createHTTPSConfig sample_dirname sample_generator env_development world_fresh =
     Inr (KeyCert ''KEY'' ''CERT'',
          persisted sample_dirname \<lparr>private = ''KEY'', public = ''PUB'', cert = ''CERT''\<rparr> world_fresh) \<and>
   createHTTPSConfig sample_dirname sample_generator env_development world_cached =
     Inr (KeyCert ''STORED KEY'' ''STORED CERT'', world_cached)"
proof -
  have p: "env_production ''NODE_ENV'' = Some ''production''"
    by (simp add: sample_defs)
  have g: "env_development ''NODE_ENV'' \<noteq> Some ''production'' \<and>
    \<not> existsSync world_fresh (path_join sample_dirname [''certs'']) \<and>
    fs world_fresh sample_dirname = Some Dir \<and>
    fs world_fresh (path_join sample_dirname [''certs'', ''key.pem'']) = None \<and>
    fs world_fresh (path_join sample_dirname [''certs'', ''cert.pem'']) = None"
    by (simp add: sample_defs existsSync_def path_join_def)
  have c: "env_development ''NODE_ENV'' \<noteq> Some ''production'' \<and>
    existsSync world_cached (path_join sample_dirname [''certs'']) \<and>
    fs world_cached (path_join sample_dirname [''certs'', ''key.pem'']) = Some (File ''STORED KEY'') \<and>
    fs world_cached (path_join sample_dirname [''certs'', ''cert.pem'']) = Some (File ''STORED CERT'')"
    by (simp add: sample_defs existsSync_def path_join_def)
  have s: "sample_generator selfsigned_attrs selfsigned_options =
      \<lparr>private = ''KEY'', public = ''PUB'', cert = ''CERT''\<rparr>"
    by (simp add: sample_generator_def)
  from certificate_provisioning [where env = env_production and w = world_fresh
      and dirname = sample_dirname and generate = sample_generator] p
  have 1: "createHTTPSConfig sample_dirname sample_generator env_production world_fresh =
     Inr (HttpsFalse, world_fresh)" by simp
  from certificate_provisioning [where env = env_development and w = world_fresh
      and dirname = sample_dirname and generate = sample_generator] g s
  have 2: "createHTTPSConfig sample_dirname sample_generator env_development world_fresh =
     Inr (KeyCert ''KEY'' ''CERT'',
          persisted sample_dirname \<lparr>private = ''KEY'', public = ''PUB'', cert = ''CERT''\<rparr> world_fresh)"
    by simp
  from certificate_provisioning [where env = env_development and w = world_cached
      and dirname = sample_dirname and generate = sample_generator
      and k = "''STORED KEY''" and c = "''STORED CERT''"] c
  have 3: "createHTTPSConfig sample_dirname sample_generator env_development world_cached =
     Inr (KeyCert ''STORED KEY'' ''STORED CERT'', world_cached)" by simp
  from 1 2 3 show ?thesis by simp
qed


section \<open>The exported function and the smoke variant\<close>

lemma html_plugins_smoke:
  "html_plugins (map smoke_plugin ps) =
     map (\<lambda>opts. opts\<lparr>html_options.filename := ''smoke-'' @ html_options.filename opts\<rparr>)
       (html_plugins ps)"
  by (induction ps rule: html_plugins.induct) (simp_all add: smoke_plugin_def)

lemma other_plugins_smoke: "other_plugins (map smoke_plugin ps) = other_plugins ps"
  by (induction ps rule: other_plugins.induct) (simp_all add: smoke_plugin_def)

lemma smoke_plugin_pointwise:
  "list_all2
     (\<lambda>p q. case p of
         HTMLWebpackPlugin opts \<Rightarrow>
           q = HTMLWebpackPlugin (opts\<lparr>html_options.filename := ''smoke-'' @ html_options.filename opts\<rparr>)
       | _ \<Rightarrow> q = p)
     ps (map smoke_plugin ps)"
  by (induction ps) (simp_all add: smoke_plugin_def split: plugin.splits)

lemma module_exports_smoke:
  assumes "truthy (env ''GENERATE_SMOKE_TESTS'')" and "env ''BASE_ASSETS_PATH'' = Some b" and "b \<noteq> []"
  shows "module_exports env cfg = ConfigArray [cfg, smokeConfig b cfg]"
  using assms by (simp add: module_exports_def truthy_def)

lemma module_exports_single:
  assumes "\<not> (truthy (env ''GENERATE_SMOKE_TESTS'') \<and> truthy (env ''BASE_ASSETS_PATH''))"
  shows "module_exports env cfg = Config cfg"
  using assms by (auto simp add: module_exports_def)

lemma html_filenames_config:
  "map html_options.filename (html_plugins (plugins (config dirname env h))) =
     [''index.html'', ''room.html'', ''onboarding.html'']"
  by (simp add: config_def)

text \<open>
  Claim C1, as the code has it. When \<^verbatim>\<open>GENERATE_SMOKE_TESTS\<close> and \<^verbatim>\<open>BASE_ASSETS_PATH\<close> are both
  set to non-empty strings, the exported function returns the array of \<^verbatim>\<open>config\<close> and
  \<^verbatim>\<open>smokeConfig\<close>. The second is the first with another \<^verbatim>\<open>output.publicPath\<close> and other
  plugins, and with nothing else changed: entry points, mode, devtool, dev server, performance,
  module rules, output path and output filename pattern are the same; the plugins that are not
  HTML plugins are the same; and each HTML plugin is replaced, in its place, by one with the
  same options but for the filename, which is the old one after \<^verbatim>\<open>smoke-\<close>.
\<close>

theorem smoke_variant_frame:
  assumes "truthy (env ''GENERATE_SMOKE_TESTS'')"
    and "env ''BASE_ASSETS_PATH'' = Some b" and "b \<noteq> []"
  shows "module_exports env (config dirname env h) =
           ConfigArray [config dirname env h, smokeConfig b (config dirname env h)] \<and>
         smokeConfig b (config dirname env h) =
           (config dirname env h)
             \<lparr>output := (output (config dirname env h))
                 \<lparr>publicPath := publicPath (output (smokeConfig b (config dirname env h)))\<rparr>,
              plugins := plugins (smokeConfig b (config dirname env h))\<rparr> \<and>
         publicPath (output (smokeConfig b (config dirname env h))) =
           js_replace ''://'' ''://smoke-'' (publicPath (output (config dirname env h))) \<and>
         entry (smokeConfig b (config dirname env h)) = entry (config dirname env h) \<and>
         mode (smokeConfig b (config dirname env h)) = mode (config dirname env h) \<and>
         devtool (smokeConfig b (config dirname env h)) = devtool (config dirname env h) \<and>
         devServer (smokeConfig b (config dirname env h)) = devServer (config dirname env h) \<and>
         performance (smokeConfig b (config dirname env h)) = performance (config dirname env h) \<and>
         module (smokeConfig b (config dirname env h)) = module (config dirname env h) \<and>
         output.filename (output (smokeConfig b (config dirname env h))) =
           output.filename (output (config dirname env h)) \<and>
         output.path (output (smokeConfig b (config dirname env h))) =
           output.path (output (config dirname env h)) \<and>
         other_plugins (plugins (smokeConfig b (config dirname env h))) =
           other_plugins (plugins (config dirname env h)) \<and>
         list_all2
           (\<lambda>p q. case p of
               HTMLWebpackPlugin opts \<Rightarrow>
                 q = HTMLWebpackPlugin
                       (opts\<lparr>html_options.filename := ''smoke-'' @ html_options.filename opts\<rparr>)
             | _ \<Rightarrow> q = p)
           (plugins (config dirname env h)) (plugins (smokeConfig b (config dirname env h))) \<and>
         map html_options.filename (html_plugins (plugins (smokeConfig b (config dirname env h)))) =
           map (\<lambda>f. ''smoke-'' @ f)
             (map html_options.filename (html_plugins (plugins (config dirname env h)))) \<and>
         map html_options.filename (html_plugins (plugins (smokeConfig b (config dirname env h)))) =
           [''smoke-index.html'', ''smoke-room.html'', ''smoke-onboarding.html'']"
proof -
  let ?cfg = "config dirname env h"
  have pp: "publicPath (output ?cfg) = b"
    using assms by (simp add: config_def js_or_def)
  have 1: "module_exports env ?cfg = ConfigArray [?cfg, smokeConfig b ?cfg]"
    using assms by (rule module_exports_smoke)
  have 2: "smokeConfig b ?cfg =
      ?cfg\<lparr>output := (output ?cfg)\<lparr>publicPath := publicPath (output (smokeConfig b ?cfg))\<rparr>,
            plugins := plugins (smokeConfig b ?cfg)\<rparr>"
    by (simp add: smokeConfig_def)
  have 3: "publicPath (output (smokeConfig b ?cfg)) =
      js_replace ''://'' ''://smoke-'' (publicPath (output ?cfg))"
    by (simp add: smokeConfig_def pp)
  have 4: "entry (smokeConfig b ?cfg) = entry ?cfg"
    "mode (smokeConfig b ?cfg) = mode ?cfg"
    "devtool (smokeConfig b ?cfg) = devtool ?cfg"
    "devServer (smokeConfig b ?cfg) = devServer ?cfg"
    "performance (smokeConfig b ?cfg) = performance ?cfg"
    "module (smokeConfig b ?cfg) = module ?cfg"
    "output.filename (output (smokeConfig b ?cfg)) = output.filename (output ?cfg)"
    "output.path (output (smokeConfig b ?cfg)) = output.path (output ?cfg)"
    by (simp_all add: smokeConfig_def)
  have 5: "other_plugins (plugins (smokeConfig b ?cfg)) = other_plugins (plugins ?cfg)"
    by (simp add: smokeConfig_def other_plugins_smoke)
  have 6: "list_all2
           (\<lambda>p q. case p of
               HTMLWebpackPlugin opts \<Rightarrow>
                 q = HTMLWebpackPlugin
                       (opts\<lparr>html_options.filename := ''smoke-'' @ html_options.filename opts\<rparr>)
             | _ \<Rightarrow> q = p)
           (plugins ?cfg) (plugins (smokeConfig b ?cfg))"
    by (simp add: smokeConfig_def smoke_plugin_pointwise)
  have 7: "map html_options.filename (html_plugins (plugins (smokeConfig b ?cfg))) =
           map (\<lambda>f. ''smoke-'' @ f) (map html_options.filename (html_plugins (plugins ?cfg)))"
    by (simp add: smokeConfig_def html_plugins_smoke comp_def)
  have 8: "map html_options.filename (html_plugins (plugins (smokeConfig b ?cfg))) =
           [''smoke-index.html'', ''smoke-room.html'', ''smoke-onboarding.html'']"
    unfolding 7 html_filenames_config by simp
  from 1 2 3 4 5 6 7 8 show ?thesis by (intro conjI)
qed

text \<open>
  A variable set to the empty string is set, and falsy: then there is one configuration only.
\<close>

theorem smoke_variant_frame_counterexample:
  "env_smoke_blank ''GENERATE_SMOKE_TESTS'' = Some [] \<and>
   env_smoke_blank ''BASE_ASSETS_PATH'' = Some ''https://assets.example.com/'' \<and>
   module_exports env_smoke_blank (config sample_dirname env_smoke_blank HttpsFalse) =
     Config (config sample_dirname env_smoke_blank HttpsFalse)"
  by (simp add: module_exports_def truthy_def env_smoke_blank_def)

theorem smoke_variant_frame_witness:
  "module_exports env_smoke (config sample_dirname env_smoke HttpsFalse) =
     ConfigArray [config sample_dirname env_smoke HttpsFalse,
                  smokeConfig ''https://assets.example.com/'' (config sample_dirname env_smoke HttpsFalse)] \<and>
   publicPath (output (smokeConfig ''https://assets.example.com/''
       (config sample_dirname env_smoke HttpsFalse))) = ''https://smoke-assets.example.com/'' \<and>
   map html_options.filename (html_plugins (plugins (smokeConfig ''https://assets.example.com/''
       (config sample_dirname env_smoke HttpsFalse)))) =
     [''smoke-index.html'', ''smoke-room.html'', ''smoke-onboarding.html'']"
proof -
  have t: "truthy (env_smoke ''GENERATE_SMOKE_TESTS'')"
    by (simp add: env_smoke_def truthy_def)
  have b: "env_smoke ''BASE_ASSETS_PATH'' = Some ''https://assets.example.com/''"
    by (simp add: env_smoke_def)
  have n: "''https://assets.example.com/'' \<noteq> []" by simp
  have p: "publicPath (output (config sample_dirname env_smoke HttpsFalse)) =
      ''https://assets.example.com/''"
    by (simp add: config_def env_smoke_def js_or_def)
  have r: "js_replace ''://'' ''://smoke-'' ''https://assets.example.com/'' =
      ''https://smoke-assets.example.com/''"
    by simp
  note frame = smoke_variant_frame [OF t b n, of sample_dirname HttpsFalse]
  from frame have 1: "module_exports env_smoke (config sample_dirname env_smoke HttpsFalse) =
     ConfigArray [config sample_dirname env_smoke HttpsFalse,
                  smokeConfig ''https://assets.example.com/'' (config sample_dirname env_smoke HttpsFalse)]"
    by (elim conjE) assumption
  from frame have "publicPath (output (smokeConfig ''https://assets.example.com/''
       (config sample_dirname env_smoke HttpsFalse))) =
       js_replace ''://'' ''://smoke-'' (publicPath (output (config sample_dirname env_smoke HttpsFalse)))"
    by (elim conjE) assumption
  then have 2: "publicPath (output (smokeConfig ''https://assets.example.com/''
       (config sample_dirname env_smoke HttpsFalse))) = ''https://smoke-assets.example.com/''"
    unfolding p r .
  from frame have 3: "map html_options.filename (html_plugins (plugins (smokeConfig ''https://assets.example.com/''
       (config sample_dirname env_smoke HttpsFalse)))) =
     [''smoke-index.html'', ''smoke-room.html'', ''smoke-onboarding.html'']"
    by (elim conjE) assumption
  from 1 2 3 show ?thesis by (intro conjI)
qed

text \<open>
  Claim C9. The exported function returns an array exactly when \<^verbatim>\<open>GENERATE_SMOKE_TESTS\<close> and
  \<^verbatim>\<open>BASE_ASSETS_PATH\<close> are both truthy, and the array then has two configurations, the first
  being \<^verbatim>\<open>config\<close>; in every other environment it returns \<^verbatim>\<open>config\<close> itself. The public
  path of \<^verbatim>\<open>config\<close> is the empty string when \<^verbatim>\<open>BASE_ASSETS_PATH\<close> is not set.
\<close>

theorem export_shape:
  "((\<exists>cs. module_exports env (config dirname env h) = ConfigArray cs) =
      (truthy (env ''GENERATE_SMOKE_TESTS'') \<and> truthy (env ''BASE_ASSETS_PATH''))) \<and>
   (truthy (env ''GENERATE_SMOKE_TESTS'') \<and> truthy (env ''BASE_ASSETS_PATH'')
      \<longrightarrow> (\<exists>smoke. module_exports env (config dirname env h) =
                 ConfigArray [config dirname env h, smoke])) \<and>
   (\<not> (truthy (env ''GENERATE_SMOKE_TESTS'') \<and> truthy (env ''BASE_ASSETS_PATH''))
      \<longrightarrow> module_exports env (config dirname env h) = Config (config dirname env h)) \<and>
   (env ''BASE_ASSETS_PATH'' = None \<longrightarrow> publicPath (output (config dirname env h)) = [])"
proof -
  let ?cfg = "config dirname env h"
  let ?both = "truthy (env ''GENERATE_SMOKE_TESTS'') \<and> truthy (env ''BASE_ASSETS_PATH'')"
  have two: "?both \<longrightarrow> (\<exists>smoke. module_exports env ?cfg = ConfigArray [?cfg, smoke])"
    by (auto simp add: module_exports_def truthy_def split: option.splits)
  have one: "\<not> ?both \<longrightarrow> module_exports env ?cfg = Config ?cfg"
    by (simp add: module_exports_single)
  have iff: "(\<exists>cs. module_exports env ?cfg = ConfigArray cs) = ?both"
    using two one by (cases ?both) auto
  have dflt: "env ''BASE_ASSETS_PATH'' = None \<longrightarrow> publicPath (output ?cfg) = []"
    by (simp add: config_def js_or_def)
  from iff two one dflt show ?thesis by (intro conjI)
qed

theorem export_shape_witness:
  "(\<exists>smoke. module_exports env_smoke (config sample_dirname env_smoke HttpsFalse) =
      ConfigArray [config sample_dirname env_smoke HttpsFalse, smoke]) \<and>
   module_exports env_development (config sample_dirname env_development HttpsFalse) =
     Config (config sample_dirname env_development HttpsFalse) \<and>
   publicPath (output (config sample_dirname env_development HttpsFalse)) = []"
proof -
  have s: "truthy (env_smoke ''GENERATE_SMOKE_TESTS'') \<and> truthy (env_smoke ''BASE_ASSETS_PATH'')"
    by (simp add: env_smoke_def truthy_def)
  have d: "\<not> (truthy (env_development ''GENERATE_SMOKE_TESTS'') \<and>
               truthy (env_development ''BASE_ASSETS_PATH''))"
    by (simp add: env_development_def truthy_def)
  have u: "env_development ''BASE_ASSETS_PATH'' = None"
    by (simp add: env_development_def)
  from export_shape [of env_smoke sample_dirname HttpsFalse] s
  have 1: "\<exists>smoke. module_exports env_smoke (config sample_dirname env_smoke HttpsFalse) =
      ConfigArray [config sample_dirname env_smoke HttpsFalse, smoke]"
    by simp
  from export_shape [of env_development sample_dirname HttpsFalse] d u
  have 2: "module_exports env_development (config sample_dirname env_development HttpsFalse) =
     Config (config sample_dirname env_development HttpsFalse) \<and>
   publicPath (output (config sample_dirname env_development HttpsFalse)) = []"
    by simp
  from 1 2 show ?thesis by simp
qed

text \<open>
  Claim C10. In the smoke configuration the public path is \<^verbatim>\<open>BASE_ASSETS_PATH\<close> with its first
  \<^verbatim>\<open>://\<close> replaced by \<^verbatim>\<open>://smoke-\<close>: when the value is \<open>pre @ ''://'' @ post\<close> and no
  \<^verbatim>\<open>://\<close> starts inside \<open>pre\<close>, the result is \<open>pre @ ''://smoke-'' @ post\<close>, whatever
  \<open>post\<close> holds. When the value has no \<^verbatim>\<open>://\<close> at all, the smoke public path is the value
  itself, which is also the public path of the normal configuration.
\<close>

theorem smoke_public_path:
  assumes "truthy (env ''GENERATE_SMOKE_TESTS'')"
    and "env ''BASE_ASSETS_PATH'' = Some b" and "b \<noteq> []"
  shows "module_exports env (config dirname env h) =
           ConfigArray [config dirname env h, smokeConfig b (config dirname env h)] \<and>
         publicPath (output (smokeConfig b (config dirname env h))) =
           js_replace ''://'' ''://smoke-'' b \<and>
         (b = pre @ ''://'' @ post \<and> \<not> sublist ''://'' (pre @ '':/'')
            \<longrightarrow> publicPath (output (smokeConfig b (config dirname env h))) =
                  pre @ ''://smoke-'' @ post) \<and>
         (\<not> sublist ''://'' b
            \<longrightarrow> publicPath (output (smokeConfig b (config dirname env h))) = b \<and>
                publicPath (output (smokeConfig b (config dirname env h))) =
                  publicPath (output (config dirname env h)))"
proof -
  let ?cfg = "config dirname env h"
  have pp: "publicPath (output ?cfg) = b"
    using assms by (simp add: config_def js_or_def)
  have 1: "module_exports env ?cfg = ConfigArray [?cfg, smokeConfig b ?cfg]"
    using assms by (rule module_exports_smoke)
  have 2: "publicPath (output (smokeConfig b ?cfg)) = js_replace ''://'' ''://smoke-'' b"
    by (simp add: smokeConfig_def)
  have 3: "b = pre @ ''://'' @ post \<and> \<not> sublist ''://'' (pre @ '':/'')
            \<longrightarrow> publicPath (output (smokeConfig b ?cfg)) = pre @ ''://smoke-'' @ post"
  proof
    assume a: "b = pre @ ''://'' @ post \<and> \<not> sublist ''://'' (pre @ '':/'')"
    have "butlast ''://'' = '':/''" by simp
    with a have "js_replace ''://'' ''://smoke-'' (pre @ ''://'' @ post) = pre @ ''://smoke-'' @ post"
      using js_replace_first [of "''://''" pre "''://smoke-''" post] by simp
    with a 2 show "publicPath (output (smokeConfig b ?cfg)) = pre @ ''://smoke-'' @ post"
      by simp
  qed
  have 4: "\<not> sublist ''://'' b
            \<longrightarrow> publicPath (output (smokeConfig b ?cfg)) = b \<and>
                publicPath (output (smokeConfig b ?cfg)) = publicPath (output ?cfg)"
    using 2 pp by (simp add: js_replace_absent)
  from 1 2 3 4 show ?thesis by (intro conjI)
qed

theorem smoke_public_path_witness:
  "publicPath (output (smokeConfig ''https://assets.example.com/''
       (config sample_dirname env_smoke HttpsFalse))) = ''https://smoke-assets.example.com/'' \<and>
   module_exports env_smoke_relative (config sample_dirname env_smoke_relative HttpsFalse) =
     ConfigArray [config sample_dirname env_smoke_relative HttpsFalse,
                  smokeConfig ''/assets/'' (config sample_dirname env_smoke_relative HttpsFalse)] \<and>
   publicPath (output (smokeConfig ''/assets/''
       (config sample_dirname env_smoke_relative HttpsFalse))) = ''/assets/'' \<and>
   publicPath (output (config sample_dirname env_smoke_relative HttpsFalse)) = ''/assets/''"
proof -
  have t: "truthy (env_smoke ''GENERATE_SMOKE_TESTS'')"
    by (simp add: env_smoke_def truthy_def)
  have b: "env_smoke ''BASE_ASSETS_PATH'' = Some ''https://assets.example.com/''"
    by (simp add: env_smoke_def)
  have n: "''https://assets.example.com/'' \<noteq> []" by simp
  have first: "''https://assets.example.com/'' = ''https'' @ ''://'' @ ''assets.example.com/'' \<and>
      \<not> sublist ''://'' (''https'' @ '':/'')"
    by (simp add: sublist_Cons_right prefix_Cons)
  note at_url = smoke_public_path [OF t b n, of sample_dirname HttpsFalse "''https''" "''assets.example.com/''"]
  from at_url have "''https://assets.example.com/'' = ''https'' @ ''://'' @ ''assets.example.com/'' \<and>
      \<not> sublist ''://'' (''https'' @ '':/'')
      \<longrightarrow> publicPath (output (smokeConfig ''https://assets.example.com/''
            (config sample_dirname env_smoke HttpsFalse))) =
          ''https'' @ ''://smoke-'' @ ''assets.example.com/''"
    by (elim conjE) assumption
  from this first have "publicPath (output (smokeConfig ''https://assets.example.com/''
            (config sample_dirname env_smoke HttpsFalse))) =
          ''https'' @ ''://smoke-'' @ ''assets.example.com/''"
    by (rule mp)
  then have 1: "publicPath (output (smokeConfig ''https://assets.example.com/''
       (config sample_dirname env_smoke HttpsFalse))) = ''https://smoke-assets.example.com/''"
    by simp
  have t': "truthy (env_smoke_relative ''GENERATE_SMOKE_TESTS'')"
    by (simp add: env_smoke_relative_def truthy_def)
  have b': "env_smoke_relative ''BASE_ASSETS_PATH'' = Some ''/assets/''"
    by (simp add: env_smoke_relative_def)
  have n': "''/assets/'' \<noteq> []" by simp
  have absent: "\<not> sublist ''://'' ''/assets/''"
    by (simp add: sublist_Cons_right prefix_Cons)
  note at_rel = smoke_public_path [OF t' b' n', of sample_dirname HttpsFalse "[]" "[]"]
  from at_rel have 2: "module_exports env_smoke_relative (config sample_dirname env_smoke_relative HttpsFalse) =
     ConfigArray [config sample_dirname env_smoke_relative HttpsFalse,
                  smokeConfig ''/assets/'' (config sample_dirname env_smoke_relative HttpsFalse)]"
    by (elim conjE) assumption
  from at_rel have "\<not> sublist ''://'' ''/assets/''
      \<longrightarrow> publicPath (output (smokeConfig ''/assets/''
             (config sample_dirname env_smoke_relative HttpsFalse))) = ''/assets/'' \<and>
          publicPath (output (smokeConfig ''/assets/''
             (config sample_dirname env_smoke_relative HttpsFalse))) =
          publicPath (output (config sample_dirname env_smoke_relative HttpsFalse))"
    by (elim conjE) assumption
  from this absent have 3: "publicPath (output (smokeConfig ''/assets/''
             (config sample_dirname env_smoke_relative HttpsFalse))) = ''/assets/'' \<and>
          publicPath (output (smokeConfig ''/assets/''
             (config sample_dirname env_smoke_relative HttpsFalse))) =
          publicPath (output (config sample_dirname env_smoke_relative HttpsFalse))"
    by (rule mp)
  then have 4: "publicPath (output (config sample_dirname env_smoke_relative HttpsFalse)) = ''/assets/''"
    by metis
  from 1 2 3 4 show ?thesis by (intro conjI) (elim conjE, assumption)+
qed


section \<open>Entry points, pages and the switches of the environment\<close>

lemma entry_names_config:
  "map fst (entry (config dirname env h)) = [''lobby'', ''room'', ''onboarding'']"
  by (simp add: config_def)

lemma html_chunks_config:
  "map chunks (html_plugins (plugins (config dirname env h))) =
     [[''lobby''], [''room''], [''onboarding'']]"
  by (simp add: config_def)

lemma html_chunks_smoke:
  "map chunks (html_plugins (plugins (smokeConfig b (config dirname env h)))) =
     [[''lobby''], [''room''], [''onboarding'']]"
  by (simp add: smokeConfig_def html_plugins_smoke comp_def html_chunks_config [unfolded comp_def])

lemma one_page_per_chunk:
  assumes "map chunks hs = [[''lobby''], [''room''], [''onboarding'']]"
  shows "(\<forall>e \<in> set [''lobby'', ''room'', ''onboarding''].
            length (filter (\<lambda>opts. chunks opts = [e]) hs) = 1) \<and>
         (\<forall>opts \<in> set hs. \<forall>e \<in> set [''lobby'', ''room'', ''onboarding''].
            e \<in> set (chunks opts) \<longrightarrow> chunks opts = [e])"
proof -
  from assms obtain a b c where hs: "hs = [a, b, c]"
    and ch: "chunks a = [''lobby'']" "chunks b = [''room'']" "chunks c = [''onboarding'']"
    by (auto simp add: map_eq_Cons_conv)
  show ?thesis unfolding hs using ch by simp
qed

text \<open>
  Claim C4. For each entry point of the configuration exactly one HTML plugin of the plugin list
  has the chunk list that consists of that entry's name, and an HTML plugin that names an entry
  point among its chunks names nothing else. The same holds of the smoke configuration.
\<close>

theorem one_page_per_entry:
  "(\<forall>e \<in> set (map fst (entry (config dirname env h))).
      length (filter (\<lambda>opts. chunks opts = [e])
                (html_plugins (plugins (config dirname env h)))) = 1) \<and>
   (\<forall>opts \<in> set (html_plugins (plugins (config dirname env h))).
      \<forall>e \<in> set (map fst (entry (config dirname env h))).
        e \<in> set (chunks opts) \<longrightarrow> chunks opts = [e]) \<and>
   (\<forall>e \<in> set (map fst (entry (smokeConfig b (config dirname env h)))).
      length (filter (\<lambda>opts. chunks opts = [e])
                (html_plugins (plugins (smokeConfig b (config dirname env h))))) = 1) \<and>
   (\<forall>opts \<in> set (html_plugins (plugins (smokeConfig b (config dirname env h)))).
      \<forall>e \<in> set (map fst (entry (smokeConfig b (config dirname env h)))).
        e \<in> set (chunks opts) \<longrightarrow> chunks opts = [e])"
proof -
  have e: "entry (smokeConfig b (config dirname env h)) = entry (config dirname env h)"
    by (simp add: smokeConfig_def)
  show ?thesis
    unfolding e entry_names_config
    using one_page_per_chunk [OF html_chunks_config [of dirname env h]]
      one_page_per_chunk [OF html_chunks_smoke [of b dirname env h]]
    by (intro conjI) (elim conjE, assumption)+
qed

theorem one_page_per_entry_witness:
  "length (filter (\<lambda>opts. chunks opts = [''room''])
      (html_plugins (plugins (config sample_dirname env_development HttpsFalse)))) = 1 \<and>
   length (filter (\<lambda>opts. chunks opts = [''room''])
      (html_plugins (plugins (smokeConfig ''https://assets.example.com/''
          (config sample_dirname env_development HttpsFalse))))) = 1"
proof -
  have m: "''room'' \<in> set (map fst (entry (config sample_dirname env_development HttpsFalse)))"
    by (simp add: entry_names_config)
  have m': "''room'' \<in> set (map fst (entry (smokeConfig ''https://assets.example.com/''
       (config sample_dirname env_development HttpsFalse))))"
    by (simp add: smokeConfig_def entry_names_config)
  note T = one_page_per_entry [of sample_dirname env_development HttpsFalse "''https://assets.example.com/''"]
  from T have "\<forall>e \<in> set (map fst (entry (config sample_dirname env_development HttpsFalse))).
      length (filter (\<lambda>opts. chunks opts = [e])
                (html_plugins (plugins (config sample_dirname env_development HttpsFalse)))) = 1"
    by (elim conjE) assumption
  from this m have 1: "length (filter (\<lambda>opts. chunks opts = [''room''])
      (html_plugins (plugins (config sample_dirname env_development HttpsFalse)))) = 1"
    by (rule bspec)
  from T have "\<forall>e \<in> set (map fst (entry (smokeConfig ''https://assets.example.com/''
          (config sample_dirname env_development HttpsFalse)))).
      length (filter (\<lambda>opts. chunks opts = [e])
                (html_plugins (plugins (smokeConfig ''https://assets.example.com/''
          (config sample_dirname env_development HttpsFalse))))) = 1"
    by (elim conjE) assumption
  from this m' have 2: "length (filter (\<lambda>opts. chunks opts = [''room''])
      (html_plugins (plugins (smokeConfig ''https://assets.example.com/''
          (config sample_dirname env_development HttpsFalse))))) = 1"
    by (rule bspec)
  from 1 2 show ?thesis by (rule conjI)
qed

text \<open>
  Claim C5. The entry points are \<^verbatim>\<open>lobby\<close>, \<^verbatim>\<open>room\<close> and \<^verbatim>\<open>onboarding\<close>, in this order and
  no others; the output filename pattern is \<^verbatim>\<open>[name]-[chunkhash].js\<close>; and the HTML plugins
  pair the chunk \<^verbatim>\<open>lobby\<close> with \<^verbatim>\<open>index.html\<close>, \<^verbatim>\<open>room\<close> with \<^verbatim>\<open>room.html\<close> and
  \<^verbatim>\<open>onboarding\<close> with \<^verbatim>\<open>onboarding.html\<close>.
\<close>

theorem entries_and_pages:
  "entry (config dirname env h) =
     [(''lobby'', path_join dirname [''src'', ''lobby.js'']),
      (''room'', path_join dirname [''src'', ''room.js'']),
      (''onboarding'', path_join dirname [''src'', ''onboarding.js''])] \<and>
   output.filename (output (config dirname env h)) = ''[name]-[chunkhash].js'' \<and>
   map (\<lambda>opts. (chunks opts, html_options.filename opts))
       (html_plugins (plugins (config dirname env h))) =
     [([''lobby''], ''index.html''), ([''room''], ''room.html''),
      ([''onboarding''], ''onboarding.html'')]"
  by (simp add: config_def)

text \<open>
  Claim C6. The devtool is \<^verbatim>\<open>source-map\<close> when \<^verbatim>\<open>NODE_ENV\<close> is \<^verbatim>\<open>production\<close> and
  \<^verbatim>\<open>inline-source-map\<close> otherwise; the \<^verbatim>\<open>minimize\<close> option of the \<^verbatim>\<open>css-loader\<close> of the
  \<^verbatim>\<open>.scss\<close> rule and of the \<^verbatim>\<open>.css\<close> rule is the truth value of
  \<^verbatim>\<open>NODE_ENV === "production"\<close>, and no other rule has a \<^verbatim>\<open>css-loader\<close>; and
  \<^verbatim>\<open>createHTTPSConfig\<close> returns \<^verbatim>\<open>false\<close> exactly when \<^verbatim>\<open>NODE_ENV\<close> is \<^verbatim>\<open>production\<close>.
\<close>

theorem node_env_toggles:
  "devtool (config dirname env h) =
     (if env ''NODE_ENV'' = Some ''production'' then ''source-map'' else ''inline-source-map'') \<and>
   map css_minimize (rules_for (backslash # ''.scss$'') (rules (module (config dirname env h)))) =
     [[JBool (env ''NODE_ENV'' = Some ''production'')]] \<and>
   map css_minimize (rules_for (backslash # ''.css$'') (rules (module (config dirname env h)))) =
     [[JBool (env ''NODE_ENV'' = Some ''production'')]] \<and>
   concat (map css_minimize (rules (module (config dirname env h)))) =
     [JBool (env ''NODE_ENV'' = Some ''production''), JBool (env ''NODE_ENV'' = Some ''production'')] \<and>
   ((\<exists>w'. createHTTPSConfig dirname generate env w = Inr (HttpsFalse, w')) =
      (env ''NODE_ENV'' = Some ''production''))"
proof -
  have 1: "devtool (config dirname env h) =
     (if env ''NODE_ENV'' = Some ''production'' then ''source-map'' else ''inline-source-map'')"
    by (simp add: config_def)
  have 2: "map css_minimize (rules_for (backslash # ''.scss$'') (rules (module (config dirname env h)))) =
     [[JBool (env ''NODE_ENV'' = Some ''production'')]]"
    by (simp add: config_def rules_for_def)
  have 3: "map css_minimize (rules_for (backslash # ''.css$'') (rules (module (config dirname env h)))) =
     [[JBool (env ''NODE_ENV'' = Some ''production'')]]"
    by (simp add: config_def rules_for_def)
  have 4: "concat (map css_minimize (rules (module (config dirname env h)))) =
     [JBool (env ''NODE_ENV'' = Some ''production''), JBool (env ''NODE_ENV'' = Some ''production'')]"
    by (simp add: config_def)
  from 1 2 3 4 createHTTPSConfig_false_iff [of dirname generate env w]
  show ?thesis by (intro conjI)
qed


section \<open>The template plugin and the development server\<close>

lemma load_module_https:
  assumes "load_module dirname generate env w = Inr (cfg, w')"
  shows "createHTTPSConfig dirname generate env w = Inr (https (devServer cfg), w')"
  using assms
  by (auto simp add: load_module_def config_def split: sum.splits)

lemma dispatch_before_head:
  assumes "method req = ''HEAD''"
  shows "dispatch (routes (before_fn \<lparr>routes = []\<rparr>)) now req res =
     Sent (res\<lparr>headers := (headers res)(''Date'' \<mapsto>
                   (case headers res ''Date'' of None \<Rightarrow> [now] | Some prev \<Rightarrow> prev @ [now])),
               body := Some []\<rparr>)"
  using assms
  by (simp add: before_fn_def app_head_def head_handler_def res_send_def res_append_def)

lemma dispatch_before_other:
  assumes "method req \<noteq> ''HEAD''"
  shows "dispatch (routes (before_fn \<lparr>routes = []\<rparr>)) now req res = Next"
  using assms by (simp add: before_fn_def app_head_def)

text \<open>
  Claim C7. The plugin list has one template plugin, and the names it exposes to the template
  are \<^verbatim>\<open>NODE_ENV\<close>, \<^verbatim>\<open>ORIGIN_TRIAL_EXPIRES\<close> and \<^verbatim>\<open>ORIGIN_TRIAL_TOKEN\<close>, bound to the values
  of the environment. Applied to a compiler, the plugins leave on every new compilation one
  handler, for the event \<^verbatim>\<open>html-webpack-plugin-before-html-processing\<close>; the event turns the
  data of a page into the same data with \<^verbatim>\<open>html\<close> replaced by the templated markup, and fails
  where the templating throws.
\<close>

theorem template_hook:
  "template_plugins (plugins (config dirname env h)) =
     [\<lparr>imports = [(''NODE_ENV'', js_of_env (env ''NODE_ENV'')),
                  (''ORIGIN_TRIAL_EXPIRES'', js_of_env (env ''ORIGIN_TRIAL_EXPIRES'')),
                  (''ORIGIN_TRIAL_TOKEN'', js_of_env (env ''ORIGIN_TRIAL_TOKEN''))]\<rparr>] \<and>
   map (\<lambda>opts. map fst (imports opts)) (template_plugins (plugins (config dirname env h))) =
     [[''NODE_ENV'', ''ORIGIN_TRIAL_EXPIRES'', ''ORIGIN_TRIAL_TOKEN'']] \<and>
   map fst (compilation_handlers (new_compilation
       (apply_plugins tmpl (plugins (config dirname env h)) \<lparr>compiler_handlers = []\<rparr>))) =
     [''html-webpack-plugin-before-html-processing''] \<and>
   waterfall (compilation_handlers (new_compilation
       (apply_plugins tmpl (plugins (config dirname env h)) \<lparr>compiler_handlers = []\<rparr>)))
     ''html-webpack-plugin-before-html-processing'' data =
     (case tmpl (html data)
             \<lparr>imports = [(''NODE_ENV'', js_of_env (env ''NODE_ENV'')),
                          (''ORIGIN_TRIAL_EXPIRES'', js_of_env (env ''ORIGIN_TRIAL_EXPIRES'')),
                          (''ORIGIN_TRIAL_TOKEN'', js_of_env (env ''ORIGIN_TRIAL_TOKEN''))]\<rparr> of
        None \<Rightarrow> None
      | Some s \<Rightarrow> Some (data\<lparr>html := s\<rparr>))"
proof -
  let ?opts = "\<lparr>imports = [(''NODE_ENV'', js_of_env (env ''NODE_ENV'')),
                  (''ORIGIN_TRIAL_EXPIRES'', js_of_env (env ''ORIGIN_TRIAL_EXPIRES'')),
                  (''ORIGIN_TRIAL_TOKEN'', js_of_env (env ''ORIGIN_TRIAL_TOKEN''))]\<rparr>"
  have 1: "template_plugins (plugins (config dirname env h)) = [?opts]"
    by (simp add: config_def)
  have 2: "map (\<lambda>opts. map fst (imports opts)) (template_plugins (plugins (config dirname env h))) =
     [[''NODE_ENV'', ''ORIGIN_TRIAL_EXPIRES'', ''ORIGIN_TRIAL_TOKEN'']]"
    unfolding 1 by simp
  have c: "compilation_handlers (new_compilation
       (apply_plugins tmpl (plugins (config dirname env h)) \<lparr>compiler_handlers = []\<rparr>)) =
     [(''html-webpack-plugin-before-html-processing'', before_html_processing tmpl ?opts)]"
    by (simp add: config_def new_compilation_def LodashTemplatePlugin_apply_def
        compiler_plugin_def compilation_plugin_def)
  have 3: "map fst (compilation_handlers (new_compilation
       (apply_plugins tmpl (plugins (config dirname env h)) \<lparr>compiler_handlers = []\<rparr>))) =
     [''html-webpack-plugin-before-html-processing'']"
    unfolding c by simp
  have 4: "waterfall (compilation_handlers (new_compilation
       (apply_plugins tmpl (plugins (config dirname env h)) \<lparr>compiler_handlers = []\<rparr>)))
     ''html-webpack-plugin-before-html-processing'' data =
     (case tmpl (html data) ?opts of None \<Rightarrow> None | Some s \<Rightarrow> Some (data\<lparr>html := s\<rparr>))"
    unfolding c by (simp add: before_html_processing_def split: option.splits)
  from 1 2 3 4 show ?thesis by (intro conjI)
qed

lemma load_module_returns:
  assumes "createHTTPSConfig dirname generate env w = Inr (h, w')"
  shows "load_module dirname generate env w = Inr (config dirname env h, w')"
  using assms by (simp add: load_module_def)

lemma load_module_throws:
  assumes "createHTTPSConfig dirname generate env w = Inl e"
  shows "load_module dirname generate env w = Inl e"
  using assms by (simp add: load_module_def)

text \<open>
  Claim C8. The dev server's host is \<^verbatim>\<open>0.0.0.0\<close>. Its \<^verbatim>\<open>https\<close> option is what
  \<^verbatim>\<open>createHTTPSConfig\<close> returned when the module was loaded: the module loads exactly when that
  call returns, the configuration it then holds has the returned value as \<^verbatim>\<open>devServer.https\<close>
  and the world is the one the call left; when the call throws, so does the loading. A HEAD
  request is answered with an empty body and the current time appended to the \<^verbatim>\<open>Date\<close>
  header, the rest of the response as it was; and a request of another method is passed on,
  nothing done to it.
\<close>

theorem dev_server:
  "host (devServer (config dirname env h)) = ''0.0.0.0'' \<and>
   https (devServer (config dirname env h)) = h \<and>
   (load_module dirname generate env w = Inr (cfg, w')
      \<longrightarrow> createHTTPSConfig dirname generate env w = Inr (https (devServer cfg), w')) \<and>
   (createHTTPSConfig dirname generate env w = Inr (h, w')
      \<longrightarrow> load_module dirname generate env w = Inr (config dirname env h, w')) \<and>
   (createHTTPSConfig dirname generate env w = Inl e
      \<longrightarrow> load_module dirname generate env w = Inl e) \<and>
   (method req = ''HEAD''
      \<longrightarrow> dispatch (routes (before (devServer (config dirname env h)) \<lparr>routes = []\<rparr>)) now req res =
            Sent (res\<lparr>headers := (headers res)(''Date'' \<mapsto>
                          (case headers res ''Date'' of None \<Rightarrow> [now] | Some prev \<Rightarrow> prev @ [now])),
                      body := Some []\<rparr>)) \<and>
   (method req \<noteq> ''HEAD''
      \<longrightarrow> dispatch (routes (before (devServer (config dirname env h)) \<lparr>routes = []\<rparr>)) now req res =
            Next)"
proof -
  have b: "before (devServer (config dirname env h)) = before_fn"
    by (simp add: config_def)
  have 1: "host (devServer (config dirname env h)) = ''0.0.0.0''"
    and 2: "https (devServer (config dirname env h)) = h"
    by (simp_all add: config_def)
  have 3: "load_module dirname generate env w = Inr (cfg, w')
      \<longrightarrow> createHTTPSConfig dirname generate env w = Inr (https (devServer cfg), w')"
    by (simp add: load_module_https)
  have 4: "createHTTPSConfig dirname generate env w = Inr (h, w')
      \<longrightarrow> load_module dirname generate env w = Inr (config dirname env h, w')"
    by (simp add: load_module_returns)
  have 5: "createHTTPSConfig dirname generate env w = Inl e
      \<longrightarrow> load_module dirname generate env w = Inl e"
    by (simp add: load_module_throws)
  have 6: "method req = ''HEAD''
      \<longrightarrow> dispatch (routes (before (devServer (config dirname env h)) \<lparr>routes = []\<rparr>)) now req res =
            Sent (res\<lparr>headers := (headers res)(''Date'' \<mapsto>
                          (case headers res ''Date'' of None \<Rightarrow> [now] | Some prev \<Rightarrow> prev @ [now])),
                      body := Some []\<rparr>)"
    unfolding b by (simp add: dispatch_before_head)
  have 7: "method req \<noteq> ''HEAD''
      \<longrightarrow> dispatch (routes (before (devServer (config dirname env h)) \<lparr>routes = []\<rparr>)) now req res =
            Next"
    unfolding b by (simp add: dispatch_before_other)
  from 1 2 3 4 5 6 7 show ?thesis by (intro conjI)
qed

theorem dev_server_witness:
  "load_module sample_dirname sample_generator env_development world_cached =
     Inr (config sample_dirname env_development (KeyCert ''STORED KEY'' ''STORED CERT''),
          world_cached) \<and>
   createHTTPSConfig sample_dirname sample_generator env_development world_cached =
     Inr (https (devServer (config sample_dirname env_development
                      (KeyCert ''STORED KEY'' ''STORED CERT''))), world_cached) \<and>
   https (devServer (config sample_dirname env_development
            (KeyCert ''STORED KEY'' ''STORED CERT''))) = KeyCert ''STORED KEY'' ''STORED CERT'' \<and>
   load_module sample_dirname sample_generator env_development world_empty_certs = Inl ENOENT \<and>
   dispatch (routes (before (devServer (config sample_dirname env_development
       (KeyCert ''STORED KEY'' ''STORED CERT''))) \<lparr>routes = []\<rparr>))
       sample_now head_request fresh_response =
     Sent \<lparr>headers = [''Date'' \<mapsto> [sample_now]], body = Some []\<rparr> \<and>
   dispatch (routes (before (devServer (config sample_dirname env_development
       (KeyCert ''STORED KEY'' ''STORED CERT''))) \<lparr>routes = []\<rparr>))
       sample_now get_request fresh_response = Next"
proof -
  have c: "createHTTPSConfig sample_dirname sample_generator env_development world_cached =
      Inr (KeyCert ''STORED KEY'' ''STORED CERT'', world_cached)"
    by (simp add: createHTTPSConfig_def sample_defs existsSync_def readFileSync_def path_join_def)
  have t: "createHTTPSConfig sample_dirname sample_generator env_development world_empty_certs =
      Inl ENOENT"
    by (simp add: createHTTPSConfig_def sample_defs existsSync_def readFileSync_def path_join_def)
  have hd: "method head_request = ''HEAD''" by (simp add: head_request_def)
  have gt: "method get_request \<noteq> ''HEAD''" by (simp add: get_request_def)
  note at_load = dev_server [where dirname = sample_dirname and env = env_development
      and h = "KeyCert ''STORED KEY'' ''STORED CERT''" and generate = sample_generator
      and w = world_cached and w' = world_cached
      and cfg = "config sample_dirname env_development (KeyCert ''STORED KEY'' ''STORED CERT'')"
      and e = ENOENT and req = head_request and now = sample_now and res = fresh_response]
  from at_load have "createHTTPSConfig sample_dirname sample_generator env_development world_cached =
      Inr (KeyCert ''STORED KEY'' ''STORED CERT'', world_cached)
      \<longrightarrow> load_module sample_dirname sample_generator env_development world_cached =
      Inr (config sample_dirname env_development (KeyCert ''STORED KEY'' ''STORED CERT''), world_cached)"
    by (elim conjE) assumption
  from this c have 1: "load_module sample_dirname sample_generator env_development world_cached =
      Inr (config sample_dirname env_development (KeyCert ''STORED KEY'' ''STORED CERT''), world_cached)"
    by (rule mp)
  from at_load have "load_module sample_dirname sample_generator env_development world_cached =
      Inr (config sample_dirname env_development (KeyCert ''STORED KEY'' ''STORED CERT''), world_cached)
      \<longrightarrow> createHTTPSConfig sample_dirname sample_generator env_development world_cached =
     Inr (https (devServer (config sample_dirname env_development
                      (KeyCert ''STORED KEY'' ''STORED CERT''))), world_cached)"
    by (elim conjE) assumption
  from this 1 have 2: "createHTTPSConfig sample_dirname sample_generator env_development world_cached =
     Inr (https (devServer (config sample_dirname env_development
                      (KeyCert ''STORED KEY'' ''STORED CERT''))), world_cached)"
    by (rule mp)
  from at_load have 3: "https (devServer (config sample_dirname env_development
            (KeyCert ''STORED KEY'' ''STORED CERT''))) = KeyCert ''STORED KEY'' ''STORED CERT''"
    by (elim conjE) assumption
  note at_throw = dev_server [where dirname = sample_dirname and env = env_development
      and h = "KeyCert ''STORED KEY'' ''STORED CERT''" and generate = sample_generator
      and w = world_empty_certs and w' = world_cached
      and cfg = "config sample_dirname env_development (KeyCert ''STORED KEY'' ''STORED CERT'')"
      and e = ENOENT and req = get_request and now = sample_now and res = fresh_response]
  from at_throw have "createHTTPSConfig sample_dirname sample_generator env_development
        world_empty_certs = Inl ENOENT
      \<longrightarrow> load_module sample_dirname sample_generator env_development world_empty_certs = Inl ENOENT"
    by (elim conjE) assumption
  from this t have 4: "load_module sample_dirname sample_generator env_development
      world_empty_certs = Inl ENOENT"
    by (rule mp)
  from at_load have "method head_request = ''HEAD''
      \<longrightarrow> dispatch (routes (before (devServer (config sample_dirname env_development
             (KeyCert ''STORED KEY'' ''STORED CERT''))) \<lparr>routes = []\<rparr>))
             sample_now head_request fresh_response =
            Sent (fresh_response\<lparr>headers := (headers fresh_response)(''Date'' \<mapsto>
                          (case headers fresh_response ''Date'' of None \<Rightarrow> [sample_now]
                           | Some prev \<Rightarrow> prev @ [sample_now])),
                      body := Some []\<rparr>)"
    by (elim conjE) assumption
  from this hd have "dispatch (routes (before (devServer (config sample_dirname env_development
             (KeyCert ''STORED KEY'' ''STORED CERT''))) \<lparr>routes = []\<rparr>))
             sample_now head_request fresh_response =
            Sent (fresh_response\<lparr>headers := (headers fresh_response)(''Date'' \<mapsto>
                          (case headers fresh_response ''Date'' of None \<Rightarrow> [sample_now]
                           | Some prev \<Rightarrow> prev @ [sample_now])),
                      body := Some []\<rparr>)"
    by (rule mp)
  then have 5: "dispatch (routes (before (devServer (config sample_dirname env_development
       (KeyCert ''STORED KEY'' ''STORED CERT''))) \<lparr>routes = []\<rparr>))
       sample_now head_request fresh_response =
     Sent \<lparr>headers = [''Date'' \<mapsto> [sample_now]], body = Some []\<rparr>"
    by (simp add: fresh_response_def)
  from at_throw have "method get_request \<noteq> ''HEAD''
      \<longrightarrow> dispatch (routes (before (devServer (config sample_dirname env_development
             (KeyCert ''STORED KEY'' ''STORED CERT''))) \<lparr>routes = []\<rparr>))
             sample_now get_request fresh_response = Next"
    by (elim conjE) assumption
  from this gt have 6: "dispatch (routes (before (devServer (config sample_dirname env_development
       (KeyCert ''STORED KEY'' ''STORED CERT''))) \<lparr>routes = []\<rparr>))
       sample_now get_request fresh_response = Next"
    by (rule mp)
  from 1 2 3 4 5 6 show ?thesis by (intro conjI)
qed

end
